theory Spec2Isabelle
  imports Complex_Main "HOL-Library.Char_ord" "HOL-Library.List_Lexorder"
begin

section \<open>Text, Python string operations and SQLite's LIKE\<close>

text \<open>
  The memory store of \<^verbatim>\<open>enhanced_memory.py\<close> keeps its data in SQLite tables and
  queries them with parameterised SQL. Text is a \<open>string\<close> here; SQLite compares text
  with the BINARY collation (byte by byte, a proper prefix first), which is the
  lexicographic order of \<open>string\<close> over the order of characters by code. Timestamps are
  text (\<^verbatim>\<open>CURRENT_TIMESTAMP\<close> on write, \<^verbatim>\<open>datetime.isoformat()\<close> in the
  parameters of a query), so every comparison of timestamps is this order on text.
  The string operations are exact for ASCII text. Scores are \<open>real\<close>: the code only
  stores and compares them.
\<close>

definition ascii_lower :: "char \<Rightarrow> char" where
  "ascii_lower c =
     (case map_of (zip ''ABCDEFGHIJKLMNOPQRSTUVWXYZ'' ''abcdefghijklmnopqrstuvwxyz'') c of
        None \<Rightarrow> c | Some l \<Rightarrow> l)"

text \<open>
  \<^verbatim>\<open>subject LIKE pattern\<close> as SQLite evaluates it by default: \<open>%\<close> matches any run of
  characters, \<open>_\<close> any one character, every other character itself, ASCII letters
  without regard to case; there is no escape character.
\<close>

fun like_match :: "string \<Rightarrow> string \<Rightarrow> bool" where
  "like_match [] s = (s = [])"
| "like_match (p # ps) s =
     (if p = CHR ''%'' then
        (like_match ps s \<or> (case s of [] \<Rightarrow> False | c # cs \<Rightarrow> like_match (p # ps) cs))
      else (case s of [] \<Rightarrow> False
            | c # cs \<Rightarrow> (p = CHR ''_'' \<or> ascii_lower p = ascii_lower c) \<and> like_match ps cs))"

text \<open>A column that is NULL never satisfies a LIKE condition.\<close>

definition sql_like :: "string option \<Rightarrow> string \<Rightarrow> bool" where
  "sql_like subject pattern =
     (case subject of None \<Rightarrow> False | Some s \<Rightarrow> like_match pattern s)"

text \<open>\<^verbatim>\<open>LIMIT ?\<close>: a negative limit means no limit.\<close>

definition sql_limit :: "int \<Rightarrow> 'a list \<Rightarrow> 'a list" where
  "sql_limit n xs = (if n < 0 then xs else take (nat n) xs)"

text \<open>
  \<^verbatim>\<open>ORDER BY\<close> as a stable insertion sort over the rows in the order of the scan
  (the order of the table, by rowid): \<open>precedes a b\<close> says that \<open>a\<close> may stand before
  \<open>b\<close>. Rows that tie on every sort key keep the order of the scan.
\<close>

fun insert_by :: "('a \<Rightarrow> 'a \<Rightarrow> bool) \<Rightarrow> 'a \<Rightarrow> 'a list \<Rightarrow> 'a list" where
  "insert_by precedes x [] = [x]"
| "insert_by precedes x (y # ys) =
     (if precedes x y then x # y # ys else y # insert_by precedes x ys)"

definition order_by :: "('a \<Rightarrow> 'a \<Rightarrow> bool) \<Rightarrow> 'a list \<Rightarrow> 'a list" where
  "order_by precedes xs = foldr (insert_by precedes) xs []"

text \<open>
  An \<^verbatim>\<open>INTEGER PRIMARY KEY AUTOINCREMENT\<close> column: the new rowid is one more than
  the largest rowid the table has ever held (\<open>seq\<close>, the table's entry of
  \<^verbatim>\<open>sqlite_sequence\<close>) and than every rowid in it now.
\<close>

definition next_rowid :: "int \<Rightarrow> int list \<Rightarrow> int" where
  "next_rowid seq ids = fold max ids (max seq 0) + 1"

subsection \<open>Python's \<^verbatim>\<open>str\<close> methods used by the store\<close>

definition py_isspace :: "char \<Rightarrow> bool" where
  "py_isspace c \<longleftrightarrow>
     c \<in> set [CHR 0x09, CHR 0x0A, CHR 0x0B, CHR 0x0C, CHR 0x0D,
               CHR 0x1C, CHR 0x1D, CHR 0x1E, CHR 0x1F, CHR 0x20]"

definition py_lower :: "string \<Rightarrow> string" where
  "py_lower s = map ascii_lower s"

text \<open>\<^verbatim>\<open>s.split()\<close>: the maximal runs of characters that are not whitespace.\<close>

fun split_words :: "string \<Rightarrow> string \<Rightarrow> string list" where
  "split_words cur [] = (if cur = [] then [] else [cur])"
| "split_words cur (c # cs) =
     (if py_isspace c then (if cur = [] then split_words [] cs else cur # split_words [] cs)
      else split_words (cur @ [c]) cs)"

definition py_split_whitespace :: "string \<Rightarrow> string list" where
  "py_split_whitespace s = split_words [] s"

text \<open>
  \<^verbatim>\<open>s.split(sep)\<close> for a separator that is not empty (the first character of the
  separator is \<open>a\<close>, the rest \<open>sep\<close>): the pieces between the occurrences of the
  separator, found from the left. The store splits on the constants \<^verbatim>\<open>persona:\<close>
  and \<^verbatim>\<open>|\<close> only; the empty separator, which Python refuses with a
  \<^verbatim>\<open>ValueError\<close>, never occurs, and \<open>py_split\<close> leaves the string whole for it.
\<close>

fun split_sep :: "char \<Rightarrow> string \<Rightarrow> string \<Rightarrow> string \<Rightarrow> string list" where
  "split_sep a sep cur [] = [cur]"
| "split_sep a sep cur (c # cs) =
     (if c = a \<and> take (length sep) cs = sep
      then cur # split_sep a sep [] (drop (length sep) cs)
      else split_sep a sep (cur @ [c]) cs)"

definition py_split :: "string \<Rightarrow> string \<Rightarrow> string list" where
  "py_split sep s = (case sep of [] \<Rightarrow> [s] | a # rest \<Rightarrow> split_sep a rest [] s)"

text \<open>\<^verbatim>\<open>sub in s\<close>\<close>

fun py_contains :: "string \<Rightarrow> string \<Rightarrow> bool" where
  "py_contains sub [] = (sub = [])"
| "py_contains sub (c # cs) = (take (length sub) (c # cs) = sub \<or> py_contains sub cs)"

definition py_strip :: "string \<Rightarrow> string" where
  "py_strip s = rev (dropWhile py_isspace (rev (dropWhile py_isspace s)))"

text \<open>\<^verbatim>\<open>str(n)\<close> for an integer.\<close>

fun digits :: "nat \<Rightarrow> string" where
  "digits n =
     (if n < 10 then [''0123456789'' ! n]
      else digits (n div 10) @ [''0123456789'' ! (n mod 10)])"

declare digits.simps [simp del]

definition py_str :: "int \<Rightarrow> string" where
  "py_str i = (if i < 0 then CHR ''-'' # digits (nat (- i)) else digits (nat i))"

subsection \<open>\<^verbatim>\<open>json.dumps\<close> of a list of strings\<close>

text \<open>
  The tags of a memory are written as \<^verbatim>\<open>json.dumps(tags)\<close>: the strings in double
  quotes, separated by a comma and a space, in brackets; inside a string the quote,
  the backslash and every character outside the printable ASCII range are escaped.
\<close>

definition hex_digit :: "nat \<Rightarrow> char" where
  "hex_digit n = ''0123456789abcdef'' ! n"

definition json_escape :: "char \<Rightarrow> string" where
  "json_escape c =
     (if c = CHR 0x22 then [CHR 0x5C, CHR 0x22]
      else if c = CHR 0x5C then [CHR 0x5C, CHR 0x5C]
      else if c = CHR 0x0A then [CHR 0x5C, CHR ''n'']
      else if c = CHR 0x0D then [CHR 0x5C, CHR ''r'']
      else if c = CHR 0x09 then [CHR 0x5C, CHR ''t'']
      else if c = CHR 0x08 then [CHR 0x5C, CHR ''b'']
      else if c = CHR 0x0C then [CHR 0x5C, CHR ''f'']
      else if c < CHR 0x20 \<or> CHR 0x7E < c then
        [CHR 0x5C, CHR ''u'', CHR ''0'', CHR ''0'',
         hex_digit (of_char c div 16), hex_digit (of_char c mod 16)]
      else [c])"

definition json_string :: "string \<Rightarrow> string" where
  "json_string s = [CHR 0x22] @ concat (map json_escape s) @ [CHR 0x22]"

fun join_with :: "string \<Rightarrow> string list \<Rightarrow> string" where
  "join_with sep [] = []"
| "join_with sep [x] = x"
| "join_with sep (x # y # ys) = x @ sep @ join_with sep (y # ys)"

definition json_dumps :: "string list \<Rightarrow> string" where
  "json_dumps ts = ''['' @ join_with '', '' (map json_string ts) @ '']''"

section \<open>The tables\<close>

text \<open>
  One record per table of \<^verbatim>\<open>init_database\<close>, a table being the list of its rows in
  rowid order. \<open>episodic_memory\<close> holds the columns that \<^verbatim>\<open>recall_episodic\<close>
  returns; the stored row adds the \<open>consolidated\<close> flag. The column \<^verbatim>\<open>tags\<close> holds
  \<^verbatim>\<open>json.dumps(tags)\<close>, or NULL when the list is empty, and is read back with
  \<^verbatim>\<open>json.loads\<close>: the row keeps the list, and \<open>tags_column\<close> is the text that SQL
  sees. A \<^verbatim>\<open>relationship_context\<close> that is NULL behaves as the empty text in every
  query below. Columns that no operation below reads are left out of the emotional
  and media rows.
\<close>

record episodic_memory =
  mem_id :: int
  timestamp :: string
  content :: string
  mem_context :: string
  importance_score :: real
  emotional_valence :: real
  emotional_arousal :: real
  tags :: "string list"
  relationship_context :: string

record episodic_row = episodic_memory +
  consolidated :: bool

record semantic_row =
  sem_id :: int
  sem_key :: string
  sem_value :: string
  confidence :: real
  source_memory_id :: "int option"
  last_accessed :: string
  access_count :: int
  created_at :: string

record emotional_row =
  emo_id :: int
  emotion_type :: string
  intensity :: real
  emo_memory_id :: "int option"

record preference_row =
  category :: string
  preference_key :: string
  preference_value :: string
  pref_confidence :: real
  last_updated :: string

record association_row =
  memory_id_1 :: int
  memory_id_2 :: int
  association_strength :: real
  association_type :: string

record media_row =
  media_id :: int
  media_memory_id :: int
  media_type :: string
  file_path :: string

record store =
  episodic_memories :: "episodic_row list"
  episodic_seq :: int
  semantic_memories :: "semantic_row list"
  semantic_seq :: int
  emotional_memories :: "emotional_row list"
  user_preferences :: "preference_row list"
  memory_associations :: "association_row list"
  media_memories :: "media_row list"

text \<open>The database right after \<^verbatim>\<open>init_database\<close> has created it.\<close>

definition init_database :: store where
  "init_database =
     \<lparr>episodic_memories = [], episodic_seq = 0, semantic_memories = [], semantic_seq = 0,
      emotional_memories = [], user_preferences = [], memory_associations = [],
      media_memories = []\<rparr>"

definition tags_column :: "'a episodic_memory_scheme \<Rightarrow> string option" where
  "tags_column r = (if tags r = [] then None else Some (json_dumps (tags r)))"

datatype error = SqlSyntaxError | DatabaseLocked | TooManySqlVariables

section \<open>Writes\<close>

text \<open>
  \<^verbatim>\<open>remember_episodic\<close> inserts one row and returns \<^verbatim>\<open>cursor.lastrowid\<close>. The
  timestamp is the column's default, \<^verbatim>\<open>CURRENT_TIMESTAMP\<close>: the parameter \<open>now\<close>.
  The function checks nothing: the arguments go into the row as they are.
\<close>

definition remember_episodic ::
  "string \<Rightarrow> string \<Rightarrow> string \<Rightarrow> real \<Rightarrow> real \<Rightarrow> real \<Rightarrow> string list \<Rightarrow> string \<Rightarrow> store
     \<Rightarrow> int \<times> store" where
  "remember_episodic now content' context' importance valence arousal tags' relationship s =
     (let memory_id = next_rowid (episodic_seq s) (map mem_id (episodic_memories s));
          row = \<lparr>mem_id = memory_id, timestamp = now, content = content',
                 mem_context = context', importance_score = importance,
                 emotional_valence = valence, emotional_arousal = arousal,
                 tags = tags', relationship_context = relationship,
                 consolidated = False\<rparr>
      in (memory_id,
          s\<lparr>episodic_memories := episodic_memories s @ [row], episodic_seq := memory_id\<rparr>))"

text \<open>
  \<^verbatim>\<open>remember_semantic\<close> is one \<^verbatim>\<open>INSERT OR REPLACE\<close>: the row that holds the key,
  if there is one, is deleted and a new row is inserted. Its \<open>access_count\<close> is
  \<^verbatim>\<open>COALESCE((SELECT access_count ... WHERE key = ?), 0) + 1\<close>, read before the old
  row goes; \<open>last_accessed\<close> and \<open>created_at\<close> are \<^verbatim>\<open>CURRENT_TIMESTAMP\<close>.
\<close>

definition remember_semantic ::
  "string \<Rightarrow> string \<Rightarrow> string \<Rightarrow> real \<Rightarrow> int option \<Rightarrow> store \<Rightarrow> store" where
  "remember_semantic now key value' conf source s =
     (let old = filter (\<lambda>r. sem_key r = key) (semantic_memories s);
          count = (case old of [] \<Rightarrow> 0 | r # _ \<Rightarrow> access_count r) + 1;
          new_id = next_rowid (semantic_seq s) (map sem_id (semantic_memories s));
          row = \<lparr>sem_id = new_id, sem_key = key, sem_value = value', confidence = conf,
                 source_memory_id = source, last_accessed = now, access_count = count,
                 created_at = now\<rparr>
      in s\<lparr>semantic_memories := filter (\<lambda>r. sem_key r \<noteq> key) (semantic_memories s) @ [row],
           semantic_seq := new_id\<rparr>)"

text \<open>\<^verbatim>\<open>update_preference\<close>: \<^verbatim>\<open>INSERT OR REPLACE\<close> on the key (category, key).\<close>

definition update_preference ::
  "string \<Rightarrow> string \<Rightarrow> string \<Rightarrow> string \<Rightarrow> real \<Rightarrow> store \<Rightarrow> store" where
  "update_preference now cat key value' conf s =
     s\<lparr>user_preferences :=
         filter (\<lambda>r. \<not> (category r = cat \<and> preference_key r = key)) (user_preferences s)
         @ [\<lparr>category = cat, preference_key = key, preference_value = value',
             pref_confidence = conf, last_updated = now\<rparr>]\<rparr>"

section \<open>Reads\<close>

text \<open>
  \<^verbatim>\<open>get_preference\<close> returns the dictionary of the row (key, value, confidence,
  last_updated), or \<^verbatim>\<open>None\<close> when \<^verbatim>\<open>fetchone()\<close> finds no row.
\<close>

definition get_preference ::
  "string \<Rightarrow> string \<Rightarrow> store \<Rightarrow> (string \<times> string \<times> real \<times> string) option" where
  "get_preference cat key s =
     (case filter (\<lambda>r. category r = cat \<and> preference_key r = key) (user_preferences s) of
        [] \<Rightarrow> None
      | r # _ \<Rightarrow> Some (preference_key r, preference_value r, pref_confidence r, last_updated r))"

text \<open>
  \<^verbatim>\<open>recall_episodic\<close> builds one SELECT. \<^verbatim>\<open>if persona:\<close>, \<^verbatim>\<open>if days_back:\<close> and
  \<^verbatim>\<open>if tags:\<close> add a condition only for an argument that is given and not empty
  (not zero). The persona condition is \<^verbatim>\<open>relationship_context LIKE '%persona:<name>%'\<close>;
  the time condition compares the timestamp, as text, with
  \<^verbatim>\<open>(datetime.now() - timedelta(days=days_back)).isoformat()\<close>, which is the argument
  \<open>cutoff\<close> here (\<open>None\<close> when \<^verbatim>\<open>days_back\<close> is not given); the tag condition is the
  disjunction of \<^verbatim>\<open>tags LIKE '%<tag>%'\<close> over the tags given.
\<close>

definition persona_pattern :: "string \<Rightarrow> string" where
  "persona_pattern p = ''%persona:'' @ p @ ''%''"

definition persona_filter :: "string option \<Rightarrow> 'a episodic_memory_scheme \<Rightarrow> bool" where
  "persona_filter persona r =
     (case persona of None \<Rightarrow> True
      | Some p \<Rightarrow> if p = [] then True
                  else like_match (persona_pattern p) (relationship_context r))"

definition tag_filter :: "string list \<Rightarrow> 'a episodic_memory_scheme \<Rightarrow> bool" where
  "tag_filter tgs r = list_ex (\<lambda>tag. sql_like (tags_column r) (''%'' @ tag @ ''%'')) tgs"

definition episodic_where ::
  "real \<Rightarrow> string option \<Rightarrow> string option \<Rightarrow> string list \<Rightarrow> 'a episodic_memory_scheme \<Rightarrow> bool" where
  "episodic_where min_importance persona cutoff tgs r =
     (min_importance \<le> importance_score r
      \<and> persona_filter persona r
      \<and> (case cutoff of None \<Rightarrow> True | Some c \<Rightarrow> c \<le> timestamp r)
      \<and> (if tgs = [] then True else tag_filter tgs r))"

text \<open>\<^verbatim>\<open>ORDER BY importance_score DESC, timestamp DESC\<close>\<close>

definition importance_then_time ::
  "'a episodic_memory_scheme \<Rightarrow> 'a episodic_memory_scheme \<Rightarrow> bool" where
  "importance_then_time a b =
     (importance_score b < importance_score a
      \<or> (importance_score a = importance_score b \<and> timestamp b \<le> timestamp a))"

definition recall_episodic ::
  "int \<Rightarrow> real \<Rightarrow> string list \<Rightarrow> string option \<Rightarrow> string option \<Rightarrow> store
     \<Rightarrow> episodic_memory list" where
  "recall_episodic limit min_importance tgs cutoff persona s =
     map episodic_memory.truncate
       (sql_limit limit
          (order_by importance_then_time
             (filter (episodic_where min_importance persona cutoff tgs) (episodic_memories s))))"

text \<open>
  \<^verbatim>\<open>recall_semantic\<close>. With a key (\<^verbatim>\<open>if key:\<close>, so a key that is not empty) it reads
  the row, and when there is one it writes \<open>last_accessed\<close> and \<open>access_count + 1\<close>
  back and returns the values it read before that write; when there is none it
  returns the empty dictionary. Without a key it returns every fact, by
  \<^verbatim>\<open>access_count DESC, last_accessed DESC\<close>. The parameter \<^verbatim>\<open>category\<close> is not used
  by the code. \<open>Facts []\<close> is the empty dictionary.
\<close>

record semantic_fact =
  fact_key :: string
  fact_value :: string
  fact_confidence :: real
  fact_last_accessed :: string
  fact_access_count :: int

datatype semantic_result = Fact semantic_fact | Facts "(string \<times> string \<times> real) list"

definition by_usefulness :: "semantic_row \<Rightarrow> semantic_row \<Rightarrow> bool" where
  "by_usefulness a b =
     (access_count b < access_count a
      \<or> (access_count a = access_count b \<and> last_accessed b \<le> last_accessed a))"

definition all_facts :: "store \<Rightarrow> semantic_result" where
  "all_facts s =
     Facts (map (\<lambda>r. (sem_key r, sem_value r, confidence r))
              (order_by by_usefulness (semantic_memories s)))"

definition recall_semantic :: "string \<Rightarrow> string option \<Rightarrow> store \<Rightarrow> semantic_result \<times> store" where
  "recall_semantic now key s =
     (case key of
        None \<Rightarrow> (all_facts s, s)
      | Some k \<Rightarrow>
          if k = [] then (all_facts s, s)
          else (case filter (\<lambda>r. sem_key r = k) (semantic_memories s) of
                  [] \<Rightarrow> (Facts [], s)
                | row # _ \<Rightarrow>
                    (Fact \<lparr>fact_key = sem_key row, fact_value = sem_value row,
                           fact_confidence = confidence row,
                           fact_last_accessed = last_accessed row,
                           fact_access_count = access_count row\<rparr>,
                     s\<lparr>semantic_memories :=
                         map (\<lambda>r. if sem_key r = k
                                   then r\<lparr>last_accessed := now,
                                          access_count := access_count r + 1\<rparr>
                                   else r)
                           (semantic_memories s)\<rparr>)))"

text \<open>
  \<^verbatim>\<open>find_related_memories\<close>. No row with the id: the empty list. Otherwise the
  persona is the argument, or, when that is not given and the target has a
  \<^verbatim>\<open>relationship_context\<close> that contains \<^verbatim>\<open>persona:\<close>, what follows the last
  \<^verbatim>\<open>persona:\<close> up to the next \<^verbatim>\<open>|\<close>, stripped. A target with tags is matched on the
  tags; a target without tags on the first five words of its content, in lower
  case. Without tags and without a word the condition is the text \<^verbatim>\<open>()\<close>, which
  SQLite refuses: \<^verbatim>\<open>execute\<close> raises \<^verbatim>\<open>sqlite3.OperationalError\<close>.
\<close>

definition py_truthy :: "string option \<Rightarrow> bool" where
  "py_truthy x = (case x of None \<Rightarrow> False | Some s \<Rightarrow> s \<noteq> [])"

definition derived_persona :: "string option \<Rightarrow> string \<Rightarrow> string option" where
  "derived_persona persona target_persona =
     (if \<not> py_truthy persona \<and> target_persona \<noteq> [] then
        (if py_contains ''persona:'' target_persona
         then Some (py_strip (hd (py_split ''|'' (last (py_split ''persona:'' target_persona)))))
         else persona)
      else persona)"

definition keyword_filter :: "string list \<Rightarrow> 'a episodic_memory_scheme \<Rightarrow> bool" where
  "keyword_filter kws r = list_ex (\<lambda>kw. like_match (''%'' @ kw @ ''%'') (content r)) kws"

text \<open>\<^verbatim>\<open>ORDER BY importance_score DESC\<close>\<close>

definition by_importance ::
  "'a episodic_memory_scheme \<Rightarrow> 'a episodic_memory_scheme \<Rightarrow> bool" where
  "by_importance a b = (importance_score b \<le> importance_score a)"

definition related_memory :: "'a episodic_memory_scheme \<Rightarrow> int \<times> string \<times> real" where
  "related_memory r = (mem_id r, content r, importance_score r)"

definition target_keywords :: "string \<Rightarrow> string list" where
  "target_keywords target_content =
     remdups (take 5 (py_split_whitespace (py_lower target_content)))"

definition related_where ::
  "int \<Rightarrow> episodic_row \<Rightarrow> string option \<Rightarrow> episodic_row \<Rightarrow> bool" where
  "related_where memory_id target persona r =
     (mem_id r \<noteq> memory_id
      \<and> (if tags target \<noteq> [] then tag_filter (tags target) r
         else keyword_filter (target_keywords (content target)) r)
      \<and> persona_filter (derived_persona persona (relationship_context target)) r)"

definition find_related_memories ::
  "int \<Rightarrow> int \<Rightarrow> string option \<Rightarrow> store \<Rightarrow> error + (int \<times> string \<times> real) list" where
  "find_related_memories memory_id limit persona s =
     (case filter (\<lambda>r. mem_id r = memory_id) (episodic_memories s) of
        [] \<Rightarrow> Inr []
      | target # _ \<Rightarrow>
          if tags target = [] \<and> target_keywords (content target) = [] then Inl SqlSyntaxError
          else Inr (map related_memory
                      (sql_limit limit
                         (order_by by_importance
                            (filter (related_where memory_id target persona)
                               (episodic_memories s))))))"

section \<open>Retrieval for one turn\<close>

text \<open>
  \<^verbatim>\<open>retrieve_memories\<close> of \<^verbatim>\<open>mo11y_agent.py\<close>. The persona name (read from the
  persona file) and the topics of the turn are arguments; \<open>cutoff_30\<close> and
  \<open>cutoff_7\<close> are the two time limits that the two calls of \<^verbatim>\<open>recall_episodic\<close>
  compute from the clock. The loop over \<^verbatim>\<open>topic_memories + recent_memories\<close> keeps
  a memory when its id has not been seen.
\<close>

fun combine_memories ::
  "int set \<Rightarrow> episodic_memory list \<Rightarrow> episodic_memory list \<Rightarrow> episodic_memory list" where
  "combine_memories seen_ids combined [] = combined"
| "combine_memories seen_ids combined (mem # rest) =
     (if mem_id mem \<notin> seen_ids
      then combine_memories (insert (mem_id mem) seen_ids) (combined @ [mem]) rest
      else combine_memories seen_ids combined rest)"

text \<open>
  \<^verbatim>\<open>for topic in topics[:3]\<close>: a result of \<^verbatim>\<open>recall_semantic(key=topic)\<close> that is not
  the empty dictionary is kept under the topic.
\<close>

fun recall_topics ::
  "string \<Rightarrow> string list \<Rightarrow> (string \<rightharpoonup> semantic_result) \<Rightarrow> store
     \<Rightarrow> (string \<rightharpoonup> semantic_result) \<times> store" where
  "recall_topics now [] found s = (found, s)"
| "recall_topics now (topic # rest) found s =
     (case recall_semantic now (Some topic) s of
        (result, s') \<Rightarrow>
          recall_topics now rest (if result = Facts [] then found else found(topic \<mapsto> result)) s')"

record memory_bundle =
  episodic :: "episodic_memory list"
  semantic :: "string \<rightharpoonup> semantic_result"
  related :: "(int \<times> string \<times> real) list"

definition retrieve_memories ::
  "string \<Rightarrow> string \<Rightarrow> string \<Rightarrow> string \<Rightarrow> string list \<Rightarrow> store
     \<Rightarrow> (error + memory_bundle) \<times> store" where
  "retrieve_memories now cutoff_30 cutoff_7 persona_name topics s =
     (let topic_memories =
            (if topics = [] then []
             else recall_episodic 3 0.3 (take 3 topics) (Some cutoff_30) (Some persona_name) s);
          recent_memories = recall_episodic 2 0.5 [] (Some cutoff_7) (Some persona_name) s;
          combined_memories =
            take 5 (combine_memories {} [] (topic_memories @ recent_memories))
      in case recall_topics now (take 3 topics) Map.empty s of
           (found, s') \<Rightarrow>
             (case (case topic_memories of
                      [] \<Rightarrow> Inr []
                    | first # _ \<Rightarrow>
                        find_related_memories (mem_id first) 2 (Some persona_name) s') of
                Inl e \<Rightarrow> (Inl e, s')
              | Inr rel \<Rightarrow>
                  (Inr \<lparr>episodic = combined_memories, semantic = found, related = rel\<rparr>, s')))"

text \<open>Of each id only the first occurrence.\<close>

fun dedup_by_id :: "episodic_memory list \<Rightarrow> episodic_memory list" where
  "dedup_by_id [] = []"
| "dedup_by_id (m # ms) = m # dedup_by_id (filter (\<lambda>r. mem_id r \<noteq> mem_id m) ms)"

section \<open>Consolidation and retention\<close>

text \<open>
  \<^verbatim>\<open>consolidate_memories\<close> selects the rows that are not consolidated and older than
  the cutoff, by \<^verbatim>\<open>importance_score DESC\<close>, and for each of them calls
  \<^verbatim>\<open>remember_semantic\<close> when its importance is above 0.7 and then sets its flag.

  The flags are set on the connection of \<^verbatim>\<open>consolidate_memories\<close> and committed
  after the loop, while \<^verbatim>\<open>remember_semantic\<close> opens a connection of its own. The
  first \<^verbatim>\<open>UPDATE\<close> starts a transaction on the outer connection (the \<^verbatim>\<open>sqlite3\<close>
  module begins one before a statement that writes), which holds SQLite's write lock
  until the commit. A \<^verbatim>\<open>remember_semantic\<close> called after that cannot write: its
  \<^verbatim>\<open>execute\<close> raises \<^verbatim>\<open>sqlite3.OperationalError\<close> (database is locked) when the
  timeout has passed, the exception leaves \<^verbatim>\<open>consolidate_memories\<close>, and the flags
  set so far, which were never committed, are rolled back. \<open>updated\<close> are the ids
  whose flag is set and not yet committed.
\<close>

definition semantic_key :: "int \<Rightarrow> string" where
  "semantic_key memory_id = ''important_event_'' @ py_str memory_id"

fun consolidate_loop ::
  "string \<Rightarrow> episodic_row list \<Rightarrow> int list \<Rightarrow> store \<Rightarrow> error option \<times> int list \<times> store" where
  "consolidate_loop now [] updated s = (None, updated, s)"
| "consolidate_loop now (m # ms) updated s =
     (if 0.7 < importance_score m then
        (if updated \<noteq> [] then (Some DatabaseLocked, updated, s)
         else consolidate_loop now ms (updated @ [mem_id m])
                (remember_semantic now (semantic_key (mem_id m)) (content m)
                   (importance_score m) (Some (mem_id m)) s))
      else consolidate_loop now ms (updated @ [mem_id m]) s)"

definition memories_to_consolidate :: "string \<Rightarrow> store \<Rightarrow> episodic_row list" where
  "memories_to_consolidate cutoff s =
     order_by by_importance
       (filter (\<lambda>r. \<not> consolidated r \<and> timestamp r < cutoff) (episodic_memories s))"

definition consolidate_memories :: "string \<Rightarrow> string \<Rightarrow> store \<Rightarrow> error option \<times> store" where
  "consolidate_memories now cutoff s =
     (case consolidate_loop now (memories_to_consolidate cutoff s) [] s of
        (None, updated, s') \<Rightarrow>
          (None,
           s'\<lparr>episodic_memories :=
                map (\<lambda>r. if mem_id r \<in> set updated then r\<lparr>consolidated := True\<rparr> else r)
                  (episodic_memories s')\<rparr>)
      | (Some e, updated, s') \<Rightarrow> (Some e, s'))"




section \<open>Evaluation on concrete stores\<close>

text \<open>A character that is not an upper-case letter is its own lower case.\<close>

lemma ascii_lower_other: "c < CHR ''A'' \<or> CHR ''Z'' < c \<Longrightarrow> ascii_lower c = c"
proof -
  assume a: "c < CHR ''A'' \<or> CHR ''Z'' < c"
  have "c \<notin> set ''ABCDEFGHIJKLMNOPQRSTUVWXYZ''"
  proof
    assume "c \<in> set ''ABCDEFGHIJKLMNOPQRSTUVWXYZ''"
    then have "CHR ''A'' \<le> c \<and> c \<le> CHR ''Z''" by auto
    with a show False by auto
  qed
  then have "map_of (zip ''ABCDEFGHIJKLMNOPQRSTUVWXYZ'' ''abcdefghijklmnopqrstuvwxyz'') c = None"
    by (simp add: map_of_eq_None_iff)
  then show ?thesis by (simp add: ascii_lower_def)
qed

lemma ascii_lower_eval:
  "ascii_lower c = (if c < CHR ''A'' \<or> CHR ''Z'' < c then c
     else (case map_of (zip ''ABCDEFGHIJKLMNOPQRSTUVWXYZ'' ''abcdefghijklmnopqrstuvwxyz'') c of
        None \<Rightarrow> c | Some l \<Rightarrow> l))"
  using ascii_lower_other [of c] by (auto simp: ascii_lower_def)

lemmas eval_defs =
  recall_episodic_def remember_episodic_def init_database_def next_rowid_def Let_def
  episodic_where_def persona_filter_def persona_pattern_def tag_filter_def tags_column_def
  sql_like_def json_dumps_def json_string_def json_escape_def ascii_lower_eval order_by_def
  sql_limit_def episodic_memory.truncate_def importance_then_time_def
  find_related_memories_def related_where_def derived_persona_def py_truthy_def
  py_split_def py_strip_def py_isspace_def keyword_filter_def target_keywords_def
  py_split_whitespace_def py_lower_def by_importance_def related_memory_def
  remember_semantic_def recall_semantic_def all_facts_def by_usefulness_def
  get_preference_def update_preference_def

section \<open>Properties of the writes\<close>

lemma fold_max_ge: "(a::int) \<le> fold max ids a"
  by (induction ids arbitrary: a) (auto intro: order_trans [OF max.cobounded2])

lemma fold_max_member: "i \<in> set ids \<Longrightarrow> (i::int) \<le> fold max ids a"
proof (induction ids arbitrary: a)
  case Nil
  then show ?case by simp
next
  case (Cons x xs)
  show ?case
  proof (cases "i = x")
    case True
    have "x \<le> max x a" by simp
    also have "\<dots> \<le> fold max xs (max x a)" by (rule fold_max_ge)
    finally show ?thesis using True by simp
  next
    case False
    with Cons show ?thesis by simp
  qed
qed

lemma next_rowid_fresh: "next_rowid seq ids \<notin> set ids"
proof
  assume "next_rowid seq ids \<in> set ids"
  then have "next_rowid seq ids \<le> fold max ids (max seq 0)" by (rule fold_max_member)
  then show False by (simp add: next_rowid_def)
qed

text \<open>
  C4 (as the code has it). The claim says that an importance outside \<open>[0, 1]\<close> is
  stored clamped. \<^verbatim>\<open>remember_episodic\<close> has no clamp: for every importance, in
  range or not, the write succeeds and the stored \<open>importance_score\<close> is the argument
  itself (the other rows are untouched).
\<close>

theorem remember_episodic_stores_importance_unchanged:
  "importance_score (last (episodic_memories (snd
      (remember_episodic now c ctx importance v a tgs rc s)))) = importance
   \<and> butlast (episodic_memories (snd (remember_episodic now c ctx importance v a tgs rc s)))
       = episodic_memories s"
  by (simp add: remember_episodic_def Let_def)

text \<open>
  C4, the claim as stated fails: an importance of \<open>-0.4\<close> is stored as \<open>-0.4\<close>, which
  is not the clamped value \<open>0\<close>, and \<open>1.7\<close> is stored as \<open>1.7\<close>, not \<open>1\<close>.
\<close>

theorem remember_episodic_clamp_counterexample:
  "map importance_score (episodic_memories (snd
      (remember_episodic ''2024-05-01 10:00:00'' ''hello'' '''' (- 0.4) 0 0 []
         ''conversation|persona:Mo11y'' init_database))) = [- 0.4]
   \<and> (- 0.4 :: real) \<noteq> max 0 (min 1 (- 0.4))
   \<and> map importance_score (episodic_memories (snd
      (remember_episodic ''2024-05-01 10:00:00'' ''hello'' '''' 1.7 0 0 []
         ''conversation|persona:Mo11y'' init_database))) = [1.7]
   \<and> (1.7 :: real) \<noteq> max 0 (min 1 1.7)"
  by (simp add: remember_episodic_def init_database_def next_rowid_def Let_def)

text \<open>
  C7 (as the code has it). The claim says that an empty content is rejected with a
  validation error. \<^verbatim>\<open>remember_episodic\<close> validates nothing: for every content,
  empty or not, it adds exactly one row, holding that content, and returns the id
  of the new row, which no earlier row has.
\<close>

theorem remember_episodic_accepts_every_content:
  "episodic_memories (snd (remember_episodic now c ctx imp v a tgs rc s))
     = episodic_memories s @
       [\<lparr>mem_id = fst (remember_episodic now c ctx imp v a tgs rc s), timestamp = now,
         content = c, mem_context = ctx, importance_score = imp, emotional_valence = v,
         emotional_arousal = a, tags = tgs, relationship_context = rc,
         consolidated = False\<rparr>]
   \<and> fst (remember_episodic now c ctx imp v a tgs rc s)
       \<notin> set (map mem_id (episodic_memories s))"
  using next_rowid_fresh [of "episodic_seq s" "map mem_id (episodic_memories s)"]
  by (simp add: remember_episodic_def Let_def)

text \<open>
  C7, the claim as stated fails: the empty content is stored, in a row of its own,
  and the call returns the id of that row.
\<close>

theorem remember_episodic_empty_content_counterexample:
  "fst (remember_episodic ''2024-05-01 10:00:00'' '''' '''' 0.5 0 0 []
         ''conversation|persona:Mo11y'' init_database) = 1
   \<and> map content (episodic_memories (snd
      (remember_episodic ''2024-05-01 10:00:00'' '''' '''' 0.5 0 0 []
         ''conversation|persona:Mo11y'' init_database))) = ['''']"
  by (simp add: remember_episodic_def init_database_def next_rowid_def Let_def)

section \<open>Properties of the reads\<close>

text \<open>
  C1, at a failing input. The persona condition of \<^verbatim>\<open>recall_episodic\<close> is a LIKE
  on \<^verbatim>\<open>%persona:<name>%\<close>, so a persona whose name begins with the name asked
  for passes it. Two memories with the same content and the same tags are written,
  the first for the persona \<open>Alex Mercer\<close>, the second for \<open>Alex\<close>; the recall for
  \<open>Alex\<close> returns both.
\<close>

theorem recall_episodic_persona_prefix_leak:
  "map (\<lambda>m. (mem_id m, relationship_context m))
     (recall_episodic 10 0 [] None (Some ''Alex'')
        (snd (remember_episodic ''2024-05-02 10:00:00'' ''the invoice is overdue'' [] 0.6 0 0
                [''billing''] ''conversation|persona:Alex''
           (snd (remember_episodic ''2024-05-01 10:00:00'' ''the invoice is overdue'' [] 0.6 0 0
                [''billing''] ''conversation|persona:Alex Mercer'' init_database)))))
   = [(2, ''conversation|persona:Alex''), (1, ''conversation|persona:Alex Mercer'')]"
  by (simp add: eval_defs)

text \<open>
  C8, at a failing input. The target, memory 2, belongs to the persona \<open>Alex\<close>,
  which \<^verbatim>\<open>find_related_memories\<close> derives from its tag; the lookup returns memory
  1, which belongs to \<open>Alex Mercer\<close>.
\<close>

theorem find_related_memories_persona_prefix_leak:
  "find_related_memories 2 5 None
        (snd (remember_episodic ''2024-05-02 10:00:00'' ''when is the invoice due'' [] 0.6 0 0
                [''billing''] ''conversation|persona:Alex''
           (snd (remember_episodic ''2024-05-01 10:00:00'' ''the invoice is overdue'' [] 0.9 0 0
                [''billing''] ''conversation|persona:Alex Mercer'' init_database))))
   = Inr [(1, ''the invoice is overdue'', 0.9)]
  \<and> derived_persona None ''conversation|persona:Alex'' = Some ''Alex''"
  by (simp add: eval_defs)

text \<open>
  A split always has a piece, so the first and the last piece that
  \<open>derived_persona\<close> takes exist.
\<close>

lemma split_sep_nonempty: "split_sep a sep cur s \<noteq> []"
  by (induction s arbitrary: cur rule: length_induct) (case_tac xs; simp)

lemma py_split_nonempty: "py_split sep s \<noteq> []"
  by (simp add: py_split_def split_sep_nonempty split: list.splits)

text \<open>
  The lookup never returns the target itself, whatever the persona.
\<close>

lemma set_insert_by: "set (insert_by precedes x xs) = insert x (set xs)"
  by (induction xs) auto

lemma set_order_by: "set (order_by precedes xs) = set xs"
  by (induction xs) (auto simp: order_by_def set_insert_by)

lemma set_sql_limit: "set (sql_limit n xs) \<subseteq> set xs"
  by (auto simp: sql_limit_def dest: in_set_takeD)

lemma find_related_memories_excludes_target:
  assumes "find_related_memories memory_id limit persona s = Inr found"
  shows "memory_id \<notin> fst ` set found"
proof (cases "filter (\<lambda>r. mem_id r = memory_id) (episodic_memories s)")
  case Nil
  with assms show ?thesis by (simp add: find_related_memories_def)
next
  case (Cons target rest)
  let ?rows = "sql_limit limit (order_by by_importance
                 (filter (related_where memory_id target persona) (episodic_memories s)))"
  from assms Cons have found: "found = map related_memory ?rows"
    by (simp add: find_related_memories_def split: if_splits)
  have "\<forall>r \<in> set ?rows. mem_id r \<noteq> memory_id"
    using set_sql_limit [of limit
        "order_by by_importance
           (filter (related_where memory_id target persona) (episodic_memories s))"]
    by (auto simp: set_order_by related_where_def)
  then show ?thesis
    by (auto simp: found related_memory_def)
qed

text \<open>
  C6. Two writes of the same key leave exactly one row with that key. It holds the
  second value and the second confidence; its \<open>access_count\<close> is one more than the
  count of the row the first write found (zero when the key was new) after the
  first write, and one more again after the second: 1 and then 2 for a new key.
  The rows of the other keys are as they were.
\<close>

theorem remember_semantic_upsert:
  "(let base = (case filter (\<lambda>r. sem_key r = k) (semantic_memories s) of
                  [] \<Rightarrow> 0 | r # _ \<Rightarrow> access_count r);
        s1 = remember_semantic t1 k v1 c1 src1 s;
        s2 = remember_semantic t2 k v2 c2 src2 s1
    in map access_count (filter (\<lambda>r. sem_key r = k) (semantic_memories s1)) = [base + 1]
       \<and> map (\<lambda>r. (sem_value r, confidence r, access_count r))
            (filter (\<lambda>r. sem_key r = k) (semantic_memories s2)) = [(v2, c2, base + 2)]
       \<and> filter (\<lambda>r. sem_key r \<noteq> k) (semantic_memories s2)
           = filter (\<lambda>r. sem_key r \<noteq> k) (semantic_memories s))"
  by (simp add: remember_semantic_def Let_def)

text \<open>
  C10 (as the code has it). For a key that is not the empty string and that the
  store holds, \<^verbatim>\<open>recall_semantic\<close> returns the \<open>access_count\<close> and \<open>last_accessed\<close>
  that the row had before the call, and the row it leaves behind has the count
  one higher and the time of the call.
\<close>

theorem recall_semantic_returns_values_before_increment:
  assumes "k \<noteq> []" and "k \<in> set (map sem_key (semantic_memories s))"
  shows "(let row = hd (filter (\<lambda>r. sem_key r = k) (semantic_memories s));
              stored = hd (filter (\<lambda>r. sem_key r = k)
                         (semantic_memories (snd (recall_semantic now (Some k) s))))
          in fst (recall_semantic now (Some k) s)
               = Fact \<lparr>fact_key = k, fact_value = sem_value row,
                       fact_confidence = confidence row,
                       fact_last_accessed = last_accessed row,
                       fact_access_count = access_count row\<rparr>
             \<and> access_count stored = access_count row + 1
             \<and> last_accessed stored = now)"
proof -
  from assms(2) obtain row rest
    where f: "filter (\<lambda>r. sem_key r = k) (semantic_memories s) = row # rest"
    by (cases "filter (\<lambda>r. sem_key r = k) (semantic_memories s)")
       (auto simp: filter_empty_conv)
  then have "row \<in> set (filter (\<lambda>r. sem_key r = k) (semantic_memories s))" by simp
  then have k: "sem_key row = k" by simp
  have m: "filter (\<lambda>r. sem_key r = k)
             (map (\<lambda>r. if sem_key r = k
                        then r\<lparr>last_accessed := now, access_count := access_count r + 1\<rparr>
                        else r) xs)
           = map (\<lambda>r. r\<lparr>last_accessed := now, access_count := access_count r + 1\<rparr>)
               (filter (\<lambda>r. sem_key r = k) xs)" for xs
    by (induction xs) auto
  show ?thesis
    using assms(1) f k by (simp add: recall_semantic_def Let_def m)
qed

theorem recall_semantic_returns_values_before_increment_witness:
  "fst (recall_semantic ''2024-05-03 09:00:00'' (Some ''billing'')
          (remember_semantic ''2024-05-02 10:00:00'' ''billing'' ''pays by invoice'' 0.8 None
             (remember_semantic ''2024-05-01 10:00:00'' ''billing'' ''pays by card'' 1 None
                init_database)))
     = Fact \<lparr>fact_key = ''billing'', fact_value = ''pays by invoice'', fact_confidence = 0.8,
             fact_last_accessed = ''2024-05-02 10:00:00'', fact_access_count = 2\<rparr>
   \<and> map (\<lambda>r. (access_count r, last_accessed r))
       (semantic_memories (snd (recall_semantic ''2024-05-03 09:00:00'' (Some ''billing'')
          (remember_semantic ''2024-05-02 10:00:00'' ''billing'' ''pays by invoice'' 0.8 None
             (remember_semantic ''2024-05-01 10:00:00'' ''billing'' ''pays by card'' 1 None
                init_database)))))
     = [(3, ''2024-05-03 09:00:00'')]"
proof -
  let ?s = "remember_semantic ''2024-05-02 10:00:00'' ''billing'' ''pays by invoice'' 0.8 None
             (remember_semantic ''2024-05-01 10:00:00'' ''billing'' ''pays by card'' 1 None
                init_database)"
  have h1: "''billing'' \<noteq> []" by simp
  have h2: "''billing'' \<in> set (map sem_key (semantic_memories ?s))"
    by (simp add: remember_semantic_def init_database_def Let_def)
  from recall_semantic_returns_values_before_increment [OF h1 h2, of "''2024-05-03 09:00:00''"]
  show ?thesis
    by (simp add: eval_defs)
qed

text \<open>
  C10, the claim as stated fails for the key that is the empty string: the store
  holds it, but \<^verbatim>\<open>if key:\<close> takes the branch without a key, which returns every
  fact and writes nothing; the \<open>access_count\<close> stays 1.
\<close>

theorem recall_semantic_empty_key_counterexample:
  "recall_semantic ''2024-05-02 10:00:00'' (Some [])
      (remember_semantic ''2024-05-01 10:00:00'' [] ''v'' 1 None init_database)
    = (Facts [([], ''v'', 1)],
       remember_semantic ''2024-05-01 10:00:00'' [] ''v'' 1 None init_database)
   \<and> map (\<lambda>r. (sem_key r, access_count r))
       (semantic_memories
          (remember_semantic ''2024-05-01 10:00:00'' [] ''v'' 1 None init_database))
     = [([], 1)]"
  by (simp add: eval_defs)

text \<open>
  C9 (as the code has it). When no row matches, \<^verbatim>\<open>recall_episodic\<close> returns the
  empty list; \<^verbatim>\<open>recall_semantic\<close> with a key that is not empty returns the empty
  dictionary and leaves the store as it was; \<^verbatim>\<open>find_related_memories\<close> returns
  the empty list when no memory has the id, and when the target has tags or at
  least one word of content and no other row matches; \<^verbatim>\<open>get_preference\<close>
  returns \<^verbatim>\<open>None\<close>.
\<close>

theorem empty_results:
  "(filter (episodic_where mi persona cutoff tgs) (episodic_memories s) = []
      \<longrightarrow> recall_episodic limit mi tgs cutoff persona s = [])
   \<and> (k \<noteq> [] \<and> k \<notin> set (map sem_key (semantic_memories s))
      \<longrightarrow> recall_semantic now (Some k) s = (Facts [], s))
   \<and> (absent_id \<notin> set (map mem_id (episodic_memories s))
      \<longrightarrow> find_related_memories absent_id limit1 persona1 s = Inr [])
   \<and> (filter (\<lambda>r. mem_id r = memory_id) (episodic_memories s) = target # rest
       \<and> (tags target \<noteq> [] \<or> target_keywords (content target) \<noteq> [])
       \<and> filter (related_where memory_id target persona2) (episodic_memories s) = []
      \<longrightarrow> find_related_memories memory_id limit2 persona2 s = Inr [])
   \<and> (filter (\<lambda>r. category r = cat \<and> preference_key r = key) (user_preferences s) = []
      \<longrightarrow> get_preference cat key s = None)"
proof (intro conjI impI)
  assume "filter (episodic_where mi persona cutoff tgs) (episodic_memories s) = []"
  then show "recall_episodic limit mi tgs cutoff persona s = []"
    by (simp add: recall_episodic_def order_by_def sql_limit_def)
next
  assume "k \<noteq> [] \<and> k \<notin> set (map sem_key (semantic_memories s))"
  then have "k \<noteq> []" and "filter (\<lambda>r. sem_key r = k) (semantic_memories s) = []"
    by (auto simp: filter_empty_conv)
  then show "recall_semantic now (Some k) s = (Facts [], s)"
    by (simp add: recall_semantic_def)
next
  assume "absent_id \<notin> set (map mem_id (episodic_memories s))"
  then have "filter (\<lambda>r. mem_id r = absent_id) (episodic_memories s) = []"
    by (auto simp: filter_empty_conv)
  then show "find_related_memories absent_id limit1 persona1 s = Inr []"
    by (simp add: find_related_memories_def)
next
  assume "filter (\<lambda>r. mem_id r = memory_id) (episodic_memories s) = target # rest
       \<and> (tags target \<noteq> [] \<or> target_keywords (content target) \<noteq> [])
       \<and> filter (related_where memory_id target persona2) (episodic_memories s) = []"
  then show "find_related_memories memory_id limit2 persona2 s = Inr []"
    by (auto simp: find_related_memories_def order_by_def sql_limit_def)
next
  assume "filter (\<lambda>r. category r = cat \<and> preference_key r = key) (user_preferences s) = []"
  then show "get_preference cat key s = None"
    by (simp add: get_preference_def)
qed

theorem empty_results_witness:
  "(let s = update_preference ''2024-05-01 10:00:02'' ''ui'' ''theme'' ''dark'' 1
              (remember_semantic ''2024-05-01 10:00:01'' ''billing'' ''pays by invoice'' 1 None
                 (snd (remember_episodic ''2024-05-01 10:00:00'' ''when is the invoice due'' []
                         0.6 0 0 [''billing''] ''conversation|persona:Alex'' init_database)))
    in recall_episodic 10 0 [''travel''] None (Some ''Alex'') s = []
       \<and> recall_semantic ''2024-05-02 09:00:00'' (Some ''travel'') s = (Facts [], s)
       \<and> find_related_memories 7 5 None s = Inr []
       \<and> find_related_memories 1 5 None s = Inr []
       \<and> get_preference ''ui'' ''font'' s = None)"
  using empty_results [where s = "update_preference ''2024-05-01 10:00:02'' ''ui'' ''theme'' ''dark'' 1
              (remember_semantic ''2024-05-01 10:00:01'' ''billing'' ''pays by invoice'' 1 None
                 (snd (remember_episodic ''2024-05-01 10:00:00'' ''when is the invoice due'' []
                         0.6 0 0 [''billing''] ''conversation|persona:Alex'' init_database)))"
      and mi = 0 and persona = "Some ''Alex''" and cutoff = None and tgs = "[''travel'']"
      and limit = 10 and k = "''travel''" and now = "''2024-05-02 09:00:00''"
      and absent_id = 7 and ?limit1.0 = 5 and ?persona1.0 = None
      and memory_id = 1 and ?limit2.0 = 5 and ?persona2.0 = None
      and target = "\<lparr>mem_id = 1, timestamp = ''2024-05-01 10:00:00'',
                     content = ''when is the invoice due'', mem_context = [],
                     importance_score = 0.6, emotional_valence = 0, emotional_arousal = 0,
                     tags = [''billing''], relationship_context = ''conversation|persona:Alex'',
                     consolidated = False\<rparr>"
      and rest = "[]" and cat = "''ui''" and key = "''font''"]
  by (simp add: eval_defs)

text \<open>
  C9, the claim as stated fails for the preference lookup: with no row for the
  category and key, \<^verbatim>\<open>get_preference\<close> returns \<^verbatim>\<open>None\<close>, not an empty collection.
\<close>

theorem get_preference_absent_counterexample:
  "get_preference ''ui'' ''theme'' init_database = None"
  by (simp add: eval_defs)

text \<open>
  A target without tags whose content has no word (here the empty content) makes
  the lookup raise instead of returning the empty list.
\<close>

lemma find_related_memories_blank_target_raises:
  "find_related_memories 1 5 None
     (snd (remember_episodic ''2024-05-01 10:00:00'' [] [] 0.5 0 0 []
             ''conversation|persona:Alex'' init_database)) = Inl SqlSyntaxError"
  by (simp add: eval_defs)

section \<open>Properties of retention\<close>



section \<open>Properties of consolidation\<close>

lemma remember_semantic_episodic [simp]:
  "episodic_memories (remember_semantic now k v c src s) = episodic_memories s"
  by (simp add: remember_semantic_def Let_def)

lemma remember_semantic_twice_length:
  "length (semantic_memories (remember_semantic t2 k v2 c2 src2
             (remember_semantic t1 k v1 c1 src1 s)))
   = length (semantic_memories (remember_semantic t1 k v1 c1 src1 s))"
  by (simp add: remember_semantic_def Let_def)

text \<open>Once a flag is set, the loop makes no further write to the semantic table.\<close>

lemma consolidate_loop_locked:
  "updated \<noteq> [] \<Longrightarrow>
   consolidate_loop now ms updated s =
     (if list_ex (\<lambda>m. 0.7 < importance_score m) ms
      then (Some DatabaseLocked,
            updated @ map mem_id (takeWhile (\<lambda>m. \<not> 0.7 < importance_score m) ms), s)
      else (None, updated @ map mem_id ms, s))"
  by (induction ms arbitrary: updated) auto

lemma consolidate_loop_start:
  "consolidate_loop now ms [] s =
     (case ms of
        [] \<Rightarrow> (None, [], s)
      | m # rest \<Rightarrow>
          (let s1 = (if 0.7 < importance_score m
                     then remember_semantic now (semantic_key (mem_id m)) (content m)
                            (importance_score m) (Some (mem_id m)) s
                     else s)
           in if list_ex (\<lambda>m. 0.7 < importance_score m) rest
              then (Some DatabaseLocked,
                    mem_id m # map mem_id (takeWhile (\<lambda>m. \<not> 0.7 < importance_score m) rest), s1)
              else (None, map mem_id (m # rest), s1)))"
  by (cases ms) (simp_all add: consolidate_loop_locked Let_def)

lemma memories_to_consolidate_cong:
  "episodic_memories s' = episodic_memories s \<Longrightarrow>
   memories_to_consolidate cutoff s' = memories_to_consolidate cutoff s"
  by (simp add: memories_to_consolidate_def)

lemma order_by_Nil [simp]: "order_by precedes [] = []"
  by (simp add: order_by_def)

lemma memories_to_consolidate_after_commit:
  assumes "set (map mem_id (memories_to_consolidate cutoff s)) \<subseteq> set updated"
  shows "memories_to_consolidate cutoff
           (s'\<lparr>episodic_memories :=
                 map (\<lambda>r. if mem_id r \<in> set updated then r\<lparr>consolidated := True\<rparr> else r)
                   (episodic_memories s)\<rparr>) = []"
proof -
  have "mem_id r \<in> set updated"
    if "r \<in> set (episodic_memories s)" "\<not> consolidated r" "timestamp r < cutoff" for r
  proof -
    from that have "r \<in> set (memories_to_consolidate cutoff s)"
      by (simp add: memories_to_consolidate_def set_order_by)
    with assms show ?thesis by auto
  qed
  then have "filter (\<lambda>r. \<not> consolidated r \<and> timestamp r < cutoff)
               (map (\<lambda>r. if mem_id r \<in> set updated then r\<lparr>consolidated := True\<rparr> else r)
                  (episodic_memories s)) = []"
    by (auto simp: filter_empty_conv)
  then show ?thesis
    by (simp add: memories_to_consolidate_def)
qed

text \<open>
  Two runs of \<^verbatim>\<open>consolidate_memories\<close> with the same cutoff, one right after the
  other. When the first run returns, the rows it marked are no longer selected:
  the selection of the second run is empty and the second run changes nothing at
  all. When the first run is stopped by the lock, its flags are rolled back and
  the second run does its work again, as the instance after this lemma shows;
  what the two runs then still share is the number of facts and the episodic rows.
\<close>

lemma consolidate_memories_twice:
  "(let first_run = consolidate_memories now1 cutoff s;
        second_run = consolidate_memories now2 cutoff (snd first_run)
    in length (semantic_memories (snd second_run)) = length (semantic_memories (snd first_run))
       \<and> episodic_memories (snd second_run) = episodic_memories (snd first_run)
       \<and> fst second_run = fst first_run
       \<and> (fst first_run = None
            \<longrightarrow> memories_to_consolidate cutoff (snd first_run) = []
                \<and> snd second_run = snd first_run))"
proof (cases "memories_to_consolidate cutoff s")
  case Nil
  then show ?thesis
    by (simp add: consolidate_memories_def Let_def)
next
  case (Cons m rest)
  let ?s1 = "if 0.7 < importance_score m
             then remember_semantic now1 (semantic_key (mem_id m)) (content m)
                    (importance_score m) (Some (mem_id m)) s
             else s"
  have ep1: "episodic_memories ?s1 = episodic_memories s" by simp
  show ?thesis
  proof (cases "list_ex (\<lambda>m. 0.7 < importance_score m) rest")
    case True
    have r1: "consolidate_memories now1 cutoff s = (Some DatabaseLocked, ?s1)"
      using Cons True by (simp add: consolidate_memories_def consolidate_loop_start Let_def)
    have sel: "memories_to_consolidate cutoff ?s1 = m # rest"
      using Cons memories_to_consolidate_cong [OF ep1] by simp
    let ?s2 = "if 0.7 < importance_score m
               then remember_semantic now2 (semantic_key (mem_id m)) (content m)
                      (importance_score m) (Some (mem_id m)) ?s1
               else ?s1"
    have r2: "consolidate_memories now2 cutoff ?s1 = (Some DatabaseLocked, ?s2)"
      using sel True by (simp add: consolidate_memories_def consolidate_loop_start Let_def)
    have "length (semantic_memories ?s2) = length (semantic_memories ?s1)"
      by (simp add: remember_semantic_twice_length)
    moreover have "episodic_memories ?s2 = episodic_memories ?s1" by simp
    ultimately show ?thesis
      unfolding Let_def r1 snd_conv fst_conv r2 by simp
  next
    case False
    let ?upd = "map mem_id (m # rest)"
    let ?s' = "?s1\<lparr>episodic_memories :=
                 map (\<lambda>r. if mem_id r \<in> set ?upd then r\<lparr>consolidated := True\<rparr> else r)
                   (episodic_memories ?s1)\<rparr>"
    have r1: "consolidate_memories now1 cutoff s = (None, ?s')"
      using Cons False by (simp add: consolidate_memories_def consolidate_loop_start Let_def)
    have "set (map mem_id (memories_to_consolidate cutoff s)) \<subseteq> set ?upd"
      using Cons by simp
    from memories_to_consolidate_after_commit [OF this, of ?s1]
    have sel: "memories_to_consolidate cutoff ?s' = []"
      by (simp only: ep1)
    have r2: "consolidate_memories now2 cutoff ?s' = (None, ?s')"
      using sel by (simp add: consolidate_memories_def)
    show ?thesis
      unfolding Let_def r1 snd_conv fst_conv r2 using sel by simp
  qed
qed

lemmas consolidate_defs =
  consolidate_memories_def memories_to_consolidate_def semantic_key_def py_str_def
  digits.simps

text \<open>
  An instance, with four memories of importance 0.9, 0.2, 0.6 and 0.95 of which
  only the first is older than the cutoff: the first run returns, adds the one
  fact \<open>important_event_1\<close> and marks memory 1 only; the second run changes nothing.
\<close>

lemma consolidate_memories_twice_instance:
  "(let s = snd (remember_episodic ''2024-04-29 09:00:00'' ''invoice 12 is overdue'' [] 0.95 0 0
                   [''billing''] ''conversation|persona:Mo11y''
             (snd (remember_episodic ''2024-04-28 09:00:00'' ''asked about the invoice'' [] 0.6 0 0
                   [''billing''] ''conversation|persona:Mo11y''
             (snd (remember_episodic ''2024-04-27 09:00:00'' ''small talk'' [] 0.2 0 0
                   [''billing''] ''conversation|persona:Mo11y''
             (snd (remember_episodic ''2024-03-20 09:00:00'' ''pays by invoice'' [] 0.9 0 0
                   [''billing''] ''conversation|persona:Mo11y'' init_database)))))));
        first_run = consolidate_memories ''2024-05-01 09:00:00'' ''2024-04-01T09:00:00.000000'' s;
        second_run = consolidate_memories ''2024-05-01 09:00:01'' ''2024-04-01T09:00:00.000000''
                       (snd first_run)
    in fst first_run = None
       \<and> map (\<lambda>f. (sem_key f, sem_value f, source_memory_id f))
            (semantic_memories (snd first_run)) = [(''important_event_1'', ''pays by invoice'', Some 1)]
       \<and> map (\<lambda>r. (mem_id r, consolidated r)) (episodic_memories (snd first_run))
           = [(1, True), (2, False), (3, False), (4, False)]
       \<and> second_run = (None, snd first_run))"
proof -
  let ?s = "snd (remember_episodic ''2024-04-29 09:00:00'' ''invoice 12 is overdue'' [] 0.95 0 0
                   [''billing''] ''conversation|persona:Mo11y''
             (snd (remember_episodic ''2024-04-28 09:00:00'' ''asked about the invoice'' [] 0.6 0 0
                   [''billing''] ''conversation|persona:Mo11y''
             (snd (remember_episodic ''2024-04-27 09:00:00'' ''small talk'' [] 0.2 0 0
                   [''billing''] ''conversation|persona:Mo11y''
             (snd (remember_episodic ''2024-03-20 09:00:00'' ''pays by invoice'' [] 0.9 0 0
                   [''billing''] ''conversation|persona:Mo11y'' init_database)))))))"
  have run: "fst (consolidate_memories ''2024-05-01 09:00:00'' ''2024-04-01T09:00:00.000000'' ?s) = None"
    by (simp add: eval_defs consolidate_defs)
  have facts: "map (\<lambda>f. (sem_key f, sem_value f, source_memory_id f))
            (semantic_memories (snd (consolidate_memories ''2024-05-01 09:00:00'' ''2024-04-01T09:00:00.000000'' ?s)))
       = [(''important_event_1'', ''pays by invoice'', Some 1)]"
    by (simp add: eval_defs consolidate_defs)
  have flags: "map (\<lambda>r. (mem_id r, consolidated r))
            (episodic_memories (snd (consolidate_memories ''2024-05-01 09:00:00'' ''2024-04-01T09:00:00.000000'' ?s)))
       = [(1, True), (2, False), (3, False), (4, False)]"
    by (simp add: eval_defs consolidate_defs)
  from consolidate_memories_twice [of "''2024-05-01 09:00:00''" "''2024-04-01T09:00:00.000000''" ?s
      "''2024-05-01 09:00:01''"] run
  have "consolidate_memories ''2024-05-01 09:00:01'' ''2024-04-01T09:00:00.000000''
          (snd (consolidate_memories ''2024-05-01 09:00:00'' ''2024-04-01T09:00:00.000000'' ?s))
        = (None, snd (consolidate_memories ''2024-05-01 09:00:00'' ''2024-04-01T09:00:00.000000'' ?s))"
    by (simp add: Let_def prod_eq_iff)
  with run facts flags show ?thesis
    by (simp add: Let_def)
qed

text \<open>
  C3, at a failing input. Two memories older than the cutoff, of importance 0.9 and
  0.95. The first run writes the fact of memory 2, the first row selected, and
  sets its flag; the write of the fact of memory 1 meets the lock and the run ends
  in the exception, so no row is marked. The second run, right after it, selects
  the same two rows again, writes the fact of memory 2 again (a new row, its
  \<open>access_count\<close> now 2) and ends in the same exception: it is not a no-op, and no
  row is ever excluded from the selection.
\<close>

theorem consolidate_memories_locked_rerun:
  "(let s = snd (remember_episodic ''2024-03-21 09:00:00'' ''invoice 12 is overdue'' [] 0.95 0 0
                   [] ''conversation|persona:Mo11y''
             (snd (remember_episodic ''2024-03-20 09:00:00'' ''pays by invoice'' [] 0.9 0 0
                   [] ''conversation|persona:Mo11y'' init_database)));
        first_run = consolidate_memories ''2024-05-01 09:00:00'' ''2024-04-01T09:00:00.123456'' s;
        second_run = consolidate_memories ''2024-05-01 09:00:06'' ''2024-04-01T09:00:00.123456''
                       (snd first_run)
    in fst first_run = Some DatabaseLocked
       \<and> map (\<lambda>r. (mem_id r, consolidated r)) (episodic_memories (snd first_run))
           = [(1, False), (2, False)]
       \<and> map (\<lambda>f. (sem_id f, sem_key f, access_count f)) (semantic_memories (snd first_run))
           = [(1, ''important_event_2'', 1)]
       \<and> map mem_id (memories_to_consolidate ''2024-04-01T09:00:00.123456'' (snd first_run))
           = [2, 1]
       \<and> fst second_run = Some DatabaseLocked
       \<and> map (\<lambda>f. (sem_id f, sem_key f, access_count f)) (semantic_memories (snd second_run))
           = [(2, ''important_event_2'', 2)]
       \<and> map (\<lambda>r. (mem_id r, consolidated r)) (episodic_memories (snd second_run))
           = [(1, False), (2, False)])"
  by (simp add: eval_defs consolidate_defs)

section \<open>Properties of the retrieval for one turn\<close>

lemma sorted_wrt_insert_by:
  assumes total: "\<And>a b. \<not> P a b \<Longrightarrow> P b a"
    and trans: "\<And>a b c. P a b \<Longrightarrow> P b c \<Longrightarrow> P a c"
  shows "sorted_wrt P xs \<Longrightarrow> sorted_wrt P (insert_by P x xs)"
proof (induction xs)
  case Nil
  then show ?case by simp
next
  case (Cons y ys)
  show ?case
  proof (cases "P x y")
    case True
    have "P x z" if "z \<in> set ys" for z
      using Cons.prems that True trans by auto
    with True Cons.prems show ?thesis by auto
  next
    case False
    then have "P y x" by (rule total)
    with False Cons show ?thesis by (auto simp: set_insert_by)
  qed
qed

lemma sorted_wrt_order_by:
  assumes "\<And>a b. \<not> P a b \<Longrightarrow> P b a"
    and "\<And>a b c. P a b \<Longrightarrow> P b c \<Longrightarrow> P a c"
  shows "sorted_wrt P (order_by P xs)"
proof (induction xs)
  case Nil
  show ?case by (simp add: order_by_def)
next
  case (Cons x xs)
  have "order_by P (x # xs) = insert_by P x (order_by P xs)"
    by (simp add: order_by_def)
  with Cons sorted_wrt_insert_by [of P, OF assms] show ?case by simp
qed

lemma importance_then_time_total:
  "\<not> importance_then_time a b \<Longrightarrow> importance_then_time b a"
  by (auto simp: importance_then_time_def)

lemma importance_then_time_trans:
  "importance_then_time a b \<Longrightarrow> importance_then_time b c \<Longrightarrow> importance_then_time a c"
  by (auto simp: importance_then_time_def)

lemma importance_then_time_truncate:
  "importance_then_time (episodic_memory.truncate a) (episodic_memory.truncate b)
     = importance_then_time a b"
  by (simp add: importance_then_time_def episodic_memory.truncate_def)

lemma sorted_recalled:
  "sorted_wrt importance_then_time
     (map episodic_memory.truncate (take n (order_by importance_then_time (rows :: episodic_row list))))"
proof -
  have "sorted_wrt importance_then_time (order_by importance_then_time rows)"
    by (rule sorted_wrt_order_by) (auto intro: importance_then_time_total importance_then_time_trans)
  then have "sorted_wrt importance_then_time (take n (order_by importance_then_time rows))"
    by (rule sorted_wrt_take)
  then show ?thesis
    by (simp add: sorted_wrt_map importance_then_time_truncate)
qed

lemma combine_memories_dedup:
  "combine_memories seen combined ms
     = combined @ dedup_by_id (filter (\<lambda>m. mem_id m \<notin> seen) ms)"
proof (induction ms arbitrary: seen combined)
  case Nil
  show ?case by simp
next
  case (Cons m ms)
  have "filter (\<lambda>r. mem_id r \<noteq> mem_id m) (filter (\<lambda>r. mem_id r \<notin> seen) ms)
        = filter (\<lambda>r. mem_id r \<notin> insert (mem_id m) seen) ms"
    by (induction ms) auto
  with Cons show ?case by simp
qed

lemma recall_semantic_episodic:
  "episodic_memories (snd (recall_semantic now key s)) = episodic_memories s"
  by (auto simp: recall_semantic_def split: option.splits list.splits)

lemma recall_topics_episodic:
  "episodic_memories (snd (recall_topics now ts found s)) = episodic_memories s"
proof (induction ts arbitrary: found s)
  case Nil
  show ?case by simp
next
  case (Cons t ts)
  obtain result s' where r: "recall_semantic now (Some t) s = (result, s')"
    by (cases "recall_semantic now (Some t) s")
  with recall_semantic_episodic [of now "Some t" s]
  have "episodic_memories s' = episodic_memories s" by simp
  with Cons r show ?case by simp
qed

text \<open>
  The episodic list that \<^verbatim>\<open>retrieve_memories\<close> returns is the result of the call
  for the topics (made when there are topics) followed by the result of the call
  for the recent memories, of each id only the first occurrence, cut to five; each
  of the two results is in the order of importance and then time, both
  descending, and no longer than its limit.
\<close>

lemma retrieve_memories_combined:
  assumes "fst (retrieve_memories now c30 c7 persona topics s) = Inr b"
  shows "episodic b =
           take 5 (dedup_by_id
             ((if topics = [] then []
               else recall_episodic 3 0.3 (take 3 topics) (Some c30) (Some persona) s)
              @ recall_episodic 2 0.5 [] (Some c7) (Some persona) s))"
  using assms
  by (auto simp: retrieve_memories_def Let_def combine_memories_dedup
           split: prod.splits sum.splits list.splits)

lemma recall_episodic_sorted:
  "sorted_wrt importance_then_time (recall_episodic limit mi tgs cutoff persona s)"
proof (cases "limit < 0")
  case True
  have "sorted_wrt importance_then_time
          (map episodic_memory.truncate
             (take (length (episodic_memories s))
                (order_by importance_then_time
                   (filter (episodic_where mi persona cutoff tgs) (episodic_memories s)))))"
    by (rule sorted_recalled)
  moreover have "length (order_by precedes xs) = length xs" for precedes and xs :: "episodic_row list"
  proof (induction xs)
    case Nil
    show ?case by simp
  next
    case (Cons x xs)
    have "length (insert_by precedes x ys) = Suc (length ys)" for ys
      by (induction ys) auto
    with Cons show ?case by (simp add: order_by_def)
  qed
  ultimately show ?thesis
    using True by (simp add: recall_episodic_def sql_limit_def)
next
  case False
  then show ?thesis
    by (simp add: recall_episodic_def sql_limit_def sorted_recalled)
qed

lemma recall_episodic_capped:
  "0 \<le> limit \<Longrightarrow> length (recall_episodic limit mi tgs cutoff persona s) \<le> nat limit"
  by (simp add: recall_episodic_def sql_limit_def)

text \<open>
  C2, at a failing input. Three memories with the same content and the tag
  \<open>billing\<close>, written for the personas \<open>Alex Mercer\<close>, \<open>Alex\<close> and \<open>Bob\<close>, all
  within the last seven days. The retrieval for the persona \<open>Alex\<close> and the topic
  \<open>billing\<close> leaves out the memory of \<open>Bob\<close>, but both of its passes return the
  memory of \<open>Alex Mercer\<close>, which comes first in the merged list.
\<close>

theorem retrieve_memories_persona_prefix_leak:
  "(let s = snd (remember_episodic ''2024-04-30 09:00:00'' ''the invoice is overdue'' [] 0.8 0 0
                   [''billing''] ''conversation|persona:Bob''
             (snd (remember_episodic ''2024-04-29 09:00:00'' ''the invoice is overdue'' [] 0.6 0 0
                   [''billing''] ''conversation|persona:Alex''
             (snd (remember_episodic ''2024-04-28 09:00:00'' ''the invoice is overdue'' [] 0.9 0 0
                   [''billing''] ''conversation|persona:Alex Mercer'' init_database)))))
    in map mem_id (recall_episodic 3 0.3 [''billing''] (Some ''2024-04-01T09:00:00.123456'')
                     (Some ''Alex'') s) = [1, 2]
       \<and> map mem_id (recall_episodic 2 0.5 [] (Some ''2024-04-24T09:00:00.123456'')
                     (Some ''Alex'') s) = [1, 2]
       \<and> map_sum id (\<lambda>b. map (\<lambda>m. (mem_id m, relationship_context m)) (episodic b))
            (fst (retrieve_memories ''2024-05-01 09:00:00'' ''2024-04-01T09:00:00.123456''
                    ''2024-04-24T09:00:00.123456'' ''Alex'' [''billing''] s))
          = Inr [(1, ''conversation|persona:Alex Mercer''), (2, ''conversation|persona:Alex'')])"
  by (simp add: eval_defs retrieve_memories_def)

end
